theory Spec2Isabelle
  imports Main "HOL-Library.Word"
begin

unbundle bit_operations_syntax

section \<open>C types of the prototype\<close>

text \<open>
  The prototype \<^verbatim>\<open>merkle_node.c\<close> declares \<^verbatim>\<open>typedef char byte;\<close>. A \<^verbatim>\<open>char\<close> has
  eight bits; whether plain \<^verbatim>\<open>char\<close> is signed is the compiler's choice (signed on x86-64
  with gcc and clang, unsigned on AArch64 Linux), so the model takes it as a parameter
  of every function that converts a \<^verbatim>\<open>byte\<close> to a wider type. An \<^verbatim>\<open>int\<close> has 32 bits
  and \<^verbatim>\<open>size_t\<close> 64; their signed or unsigned reading is taken where an operation needs
  it (\<open>sint\<close>, \<open>unat\<close>).
\<close>

datatype charkind = SignedChar | UnsignedChar

type_synonym byte = "8 word"
type_synonym c_int = "32 word"
type_synonym size_t = "64 word"

text \<open>The integer promotion of a \<^verbatim>\<open>byte\<close> operand to \<^verbatim>\<open>int\<close>.\<close>

definition promote :: "charkind \<Rightarrow> byte \<Rightarrow> c_int" where
  "promote ck b = (case ck of SignedChar \<Rightarrow> scast b | UnsignedChar \<Rightarrow> ucast b)"

text \<open>
  The conversion of an \<^verbatim>\<open>int\<close> to \<^verbatim>\<open>byte\<close> on assignment or cast: the low eight bits
  (the rule of the C standard for an unsigned \<^verbatim>\<open>char\<close>, and what gcc and clang define
  for a signed one).
\<close>

definition to_byte :: "c_int \<Rightarrow> byte" where
  "to_byte i = ucast i"

text \<open>
  The conversion of a \<^verbatim>\<open>byte\<close> argument to the \<^verbatim>\<open>size_t\<close> parameter of \<^verbatim>\<open>malloc\<close> and
  \<^verbatim>\<open>memcpy\<close>: a negative signed \<^verbatim>\<open>char\<close> wraps to a value just below \<open>2 ^ 64\<close>.
\<close>

definition to_size_t :: "charkind \<Rightarrow> byte \<Rightarrow> size_t" where
  "to_size_t ck b = (case ck of SignedChar \<Rightarrow> scast b | UnsignedChar \<Rightarrow> ucast b)"

text \<open>
  \<^verbatim>\<open>enum NodeType { Leaf, Extension, Branch }\<close>: a C enumeration is an integer type and
  its enumerators are the constants 0, 1 and 2. A cast to the enumeration keeps the
  integer, also when no enumerator has that value.
\<close>

type_synonym NodeType = c_int

definition Leaf :: NodeType where "Leaf = 0"
definition Extension :: NodeType where "Extension = 1"
definition Branch :: NodeType where "Branch = 2"

text \<open>\<^verbatim>\<open>const byte IsDirtyFlag = 0b1000; const byte NodeTypeFlag = 0b0110;\<close>\<close>

definition IsDirtyFlag :: byte where "IsDirtyFlag = 8"
definition NodeTypeFlag :: byte where "NodeTypeFlag = 6"

section \<open>Memory\<close>

text \<open>
  Memory is a list of byte objects (arrays of the caller and blocks of \<^verbatim>\<open>malloc\<close>); a
  \<^verbatim>\<open>byte *\<close> is null or the address of an object, pointing at its first byte. The
  program has undefined behaviour where it reads or writes through a null pointer or
  beyond an object; the model returns a \<open>fault\<close> there.
\<close>

datatype pointer = Null | Addr nat

type_synonym memory = "byte list list"

datatype fault = NullAccess | OutOfBounds

definition PTRDIFF_MAX :: nat where
  "PTRDIFF_MAX = 2 ^ 63 - 1"

text \<open>
  \<^verbatim>\<open>malloc(sz)\<close>: a new object of \<open>sz\<close> bytes at a fresh address, leaving every
  existing object alone; the null pointer for a request above \<^verbatim>\<open>PTRDIFF_MAX\<close>, which no
  allocator grants. Every smaller request is granted: the model has no exhaustion of
  memory. A request of 0 bytes returns a fresh empty object, as glibc does. The bytes of
  the new object are indeterminate in C; the constructors below overwrite all of them
  before they return.
\<close>

definition malloc :: "memory \<Rightarrow> size_t \<Rightarrow> pointer \<times> memory" where
  "malloc m sz =
     (if unat sz > PTRDIFF_MAX then (Null, m)
      else (Addr (length m), m @ [replicate (unat sz) 0]))"

text \<open>
  \<^verbatim>\<open>memcpy(dest, src, n)\<close>: copies the first \<open>n\<close> bytes of the object at \<open>src\<close> over
  the first \<open>n\<close> bytes of the object at \<open>dest\<close>. Both pointers must address objects
  of at least \<open>n\<close> bytes, and two different ones, since the ranges of \<^verbatim>\<open>memcpy\<close> must
  not overlap. In the constructors \<open>dest\<close> is the block \<^verbatim>\<open>malloc\<close> has just returned, so
  a \<open>src\<close> with the same address is a pointer that addressed no object when the caller
  passed it.
\<close>

definition memcpy :: "memory \<Rightarrow> pointer \<Rightarrow> pointer \<Rightarrow> size_t \<Rightarrow> fault + memory" where
  "memcpy m dest src n =
     (case dest of
        Null \<Rightarrow> Inl NullAccess
      | Addr d \<Rightarrow>
         (case src of
            Null \<Rightarrow> Inl NullAccess
          | Addr s \<Rightarrow>
             if d < length m \<and> s < length m \<and> d \<noteq> s
                \<and> unat n \<le> length (m ! d) \<and> unat n \<le> length (m ! s)
             then Inr (m[d := take (unat n) (m ! s) @ drop (unat n) (m ! d)])
             else Inl OutOfBounds))"

text \<open>
  \<^verbatim>\<open>memset(field, c, n)\<close> on an array field of a local struct: the first \<open>n\<close> bytes
  become \<open>c\<close>. The source passes \<^verbatim>\<open>sizeof(field)\<close> for \<open>n\<close>.
\<close>

definition memset :: "byte list \<Rightarrow> byte \<Rightarrow> nat \<Rightarrow> byte list" where
  "memset field c n = replicate n c @ drop n field"

section \<open>The node\<close>

text \<open>
  \<^verbatim>\<open>struct MerkleNode { byte Header; byte Keccak[32]; byte Length; byte *Data; }\<close>
\<close>

record MerkleNode =
  Header :: byte
  Keccak :: "byte list"
  Length :: byte
  Data :: pointer

text \<open>The empty initialiser \<^verbatim>\<open>MerkleNode node = {};\<close> sets every field to zero.\<close>

definition zero_MerkleNode :: MerkleNode where
  "zero_MerkleNode =
     \<lparr>Header = 0, Keccak = replicate 32 0, Length = 0, Data = Null\<rparr>"

text \<open>\<^verbatim>\<open>return (node.Header & IsDirtyFlag) != 0;\<close>\<close>

definition MerkleNode_IsDirty :: "charkind \<Rightarrow> MerkleNode \<Rightarrow> bool" where
  "MerkleNode_IsDirty ck node =
     ((promote ck (Header node) AND promote ck IsDirtyFlag) \<noteq> 0)"

text \<open>
  \<^verbatim>\<open>return (NodeType)((node.Header & NodeTypeFlag) >> 1);\<close> The shift is on a signed
  \<^verbatim>\<open>int\<close>.
\<close>

definition MerkleNode_NodeType :: "charkind \<Rightarrow> MerkleNode \<Rightarrow> NodeType" where
  "MerkleNode_NodeType ck node =
     signed_drop_bit 1 (promote ck (Header node) AND promote ck NodeTypeFlag)"

section \<open>Constructors\<close>

text \<open>
  Each constructor takes the memory and returns the node with the memory after the call,
  or the fault of the first undefined operation. The statements follow the source line by
  line; \<^verbatim>\<open>(byte)T << 1 | IsDirtyFlag\<close> parses as \<^verbatim>\<open>(((byte)T) << 1) | IsDirtyFlag\<close>, computed
  on \<^verbatim>\<open>int\<close> and converted to \<^verbatim>\<open>byte\<close> by the assignment.
\<close>

definition MerkleNode_newBranch ::
  "charkind \<Rightarrow> memory \<Rightarrow> pointer \<Rightarrow> fault + (MerkleNode \<times> memory)" where
  "MerkleNode_newBranch ck m nibbles =
     (let branch = zero_MerkleNode;
          branch = branch\<lparr>Header :=
            to_byte (push_bit 1 (promote ck (to_byte Branch)) OR promote ck IsDirtyFlag)\<rparr>;
          branch = branch\<lparr>Keccak := memset (Keccak branch) 0 (length (Keccak branch))\<rparr>;
          branch = branch\<lparr>Length := to_byte 2\<rparr>;
          (p, m1) = malloc m (to_size_t ck (Length branch));
          branch = branch\<lparr>Data := p\<rparr>
      in case memcpy m1 (Data branch) nibbles (to_size_t ck (Length branch)) of
           Inl f \<Rightarrow> Inl f
         | Inr m2 \<Rightarrow> Inr (branch, m2))"

definition MerkleNode_newExtension ::
  "charkind \<Rightarrow> memory \<Rightarrow> pointer \<Rightarrow> c_int \<Rightarrow> fault + (MerkleNode \<times> memory)" where
  "MerkleNode_newExtension ck m nibblePath pathLength =
     (let extension = zero_MerkleNode;
          extension = extension\<lparr>Header :=
            to_byte (push_bit 1 (promote ck (to_byte Extension)) OR promote ck IsDirtyFlag)\<rparr>;
          extension = extension\<lparr>Keccak :=
            memset (Keccak extension) 0 (length (Keccak extension))\<rparr>;
          extension = extension\<lparr>Length := to_byte pathLength\<rparr>;
          (p, m1) = malloc m (to_size_t ck (Length extension));
          extension = extension\<lparr>Data := p\<rparr>
      in case memcpy m1 (Data extension) nibblePath (to_size_t ck (Length extension)) of
           Inl f \<Rightarrow> Inl f
         | Inr m2 \<Rightarrow> Inr (extension, m2))"

definition MerkleNode_newLeaf ::
  "charkind \<Rightarrow> memory \<Rightarrow> pointer \<Rightarrow> c_int \<Rightarrow> fault + (MerkleNode \<times> memory)" where
  "MerkleNode_newLeaf ck m nibblePath pathLength =
     (let leaf = zero_MerkleNode;
          leaf = leaf\<lparr>Header :=
            to_byte (push_bit 1 (promote ck (to_byte Leaf)) OR promote ck IsDirtyFlag)\<rparr>;
          leaf = leaf\<lparr>Keccak := memset (Keccak leaf) 0 (length (Keccak leaf))\<rparr>;
          leaf = leaf\<lparr>Length := to_byte pathLength\<rparr>;
          (p, m1) = malloc m (to_size_t ck (Length leaf));
          leaf = leaf\<lparr>Data := p\<rparr>
      in case memcpy m1 (Data leaf) nibblePath (to_size_t ck (Length leaf)) of
           Inl f \<Rightarrow> Inl f
         | Inr m2 \<Rightarrow> Inr (leaf, m2))"

section \<open>Preconditions of a defined call\<close>

text \<open>
  The number of bytes a constructor requests from \<^verbatim>\<open>malloc\<close> and copies with
  \<^verbatim>\<open>memcpy\<close> for a given \<^verbatim>\<open>pathLength\<close>: the argument after its conversion to \<^verbatim>\<open>byte\<close>
  (the assignment to \<^verbatim>\<open>Length\<close>) and then to \<^verbatim>\<open>size_t\<close>.
\<close>

definition copy_size :: "charkind \<Rightarrow> c_int \<Rightarrow> nat" where
  "copy_size ck pathLength = unat (to_size_t ck (to_byte pathLength))"

text \<open>The pointer \<open>p\<close> is the address of an object of at least \<open>k\<close> bytes.\<close>

definition readable :: "memory \<Rightarrow> pointer \<Rightarrow> nat \<Rightarrow> bool" where
  "readable m p k =
     (case p of Null \<Rightarrow> False | Addr a \<Rightarrow> a < length m \<and> k \<le> length (m ! a))"

text \<open>
  A call of \<^verbatim>\<open>MerkleNode_newLeaf\<close> or \<^verbatim>\<open>MerkleNode_newExtension\<close> is defined when the
  allocation is granted and the caller's buffer holds the bytes that are copied.
\<close>

definition defined_call :: "charkind \<Rightarrow> memory \<Rightarrow> pointer \<Rightarrow> c_int \<Rightarrow> bool" where
  "defined_call ck m nibblePath pathLength =
     (copy_size ck pathLength \<le> PTRDIFF_MAX
      \<and> readable m nibblePath (copy_size ck pathLength))"

text \<open>The bytes of the object a pointer addresses (none for the null pointer).\<close>

definition bytes_at :: "memory \<Rightarrow> pointer \<Rightarrow> byte list" where
  "bytes_at m p = (case p of Null \<Rightarrow> [] | Addr a \<Rightarrow> m ! a)"

text \<open>
  The value of a \<^verbatim>\<open>byte\<close> as the C program reads it (for instance the \<^verbatim>\<open>Length\<close> that
  the tests print with \<^verbatim>\<open>%d\<close>).
\<close>

definition byte_value :: "charkind \<Rightarrow> byte \<Rightarrow> int" where
  "byte_value ck b = (case ck of SignedChar \<Rightarrow> sint b | UnsignedChar \<Rightarrow> uint b)"

text \<open>
  The header byte of a node of type \<open>t\<close>: the constructors' expression
  \<^verbatim>\<open>(byte)t << 1 | IsDirtyFlag\<close> for a dirty node, and \<^verbatim>\<open>(byte)t << 1\<close>, the same
  expression without the flag, for a clean one (the source constructs no clean node).
\<close>

definition pack_header :: "charkind \<Rightarrow> NodeType \<Rightarrow> bool \<Rightarrow> byte" where
  "pack_header ck t dirty =
     (if dirty
      then to_byte (push_bit 1 (promote ck (to_byte t)) OR promote ck IsDirtyFlag)
      else to_byte (push_bit 1 (promote ck (to_byte t))))"

section \<open>Conversions\<close>

lemma scast_nonneg_byte:
  fixes b :: byte
  assumes "\<not> bit b 7"
  shows "(scast b :: size_t) = ucast b"
proof (rule bit_word_eqI)
  fix n
  assume "n < LENGTH(64)"
  have "bit b n \<Longrightarrow> n < 7"
    using assms bit_imp_le_length [of b n] by (cases "n = 7") auto
  then show "bit (scast b :: size_t) n = bit (ucast b :: size_t) n"
    using assms by (auto simp: bit_simps min_def)
qed

lemma unat_ucast_byte: "unat (ucast (b :: byte) :: size_t) = unat b"
proof -
  have "unat b < 2 ^ 64"
    using unsigned_less [of b, where ?'a = nat] by simp
  then show ?thesis
    by (simp add: unsigned_ucast_eq take_bit_nat_eq_self)
qed

lemma unat_scast_neg_byte:
  fixes b :: byte
  assumes "bit b 7"
  shows "2 ^ 64 - 128 \<le> unat (scast b :: size_t)"
proof -
  have neg: "sint b < 0"
    using assms bit_last_iff [of b] by simp
  have lo: "- 128 \<le> sint b"
    using sint_ge [of b] by simp
  have "uint (word_of_int (sint b) :: size_t) = sint b mod 2 ^ LENGTH(64)"
    by (rule uint_word_of_int)
  then have "uint (scast b :: size_t) = sint b mod 18446744073709551616"
    by (simp only: scast_eq) simp
  also have "\<dots> = (sint b + 18446744073709551616) mod 18446744073709551616"
    by simp
  also have "\<dots> = sint b + 18446744073709551616"
    using neg lo by (intro mod_pos_pos_trivial) simp_all
  finally have "18446744073709551488 \<le> uint (scast b :: size_t)"
    using lo by simp
  then have "18446744073709551488 \<le> unat (scast b :: size_t)"
    by (simp only: unat_eq_nat_uint)
  then show ?thesis
    by simp
qed

text \<open>A granted request has the size the \<^verbatim>\<open>Length\<close> byte reads as unsigned.\<close>

lemma to_size_t_in_range:
  assumes "unat (to_size_t ck b) \<le> PTRDIFF_MAX"
  shows "unat (to_size_t ck b) = unat b"
proof (cases ck)
  case UnsignedChar
  then show ?thesis
    by (simp add: to_size_t_def unat_ucast_byte)
next
  case SignedChar
  show ?thesis
  proof (cases "bit b 7")
    case True
    from unat_scast_neg_byte [OF True] assms SignedChar show ?thesis
      by (simp add: to_size_t_def PTRDIFF_MAX_def)
  next
    case False
    with SignedChar show ?thesis
      by (simp add: to_size_t_def scast_nonneg_byte unat_ucast_byte)
  qed
qed

lemma copy_size_unsigned: "copy_size UnsignedChar pathLength = unat pathLength mod 256"
proof -
  have "unat (ucast pathLength :: byte) = take_bit LENGTH(8) (unat pathLength)"
    by (rule unsigned_ucast_eq)
  then have "unat (ucast pathLength :: byte) = unat pathLength mod 256"
    by (simp add: take_bit_eq_mod)
  then show ?thesis
    by (simp only: copy_size_def to_size_t_def to_byte_def unat_ucast_byte charkind.case)
qed

lemma small_byte_nonneg:
  fixes b :: byte
  assumes "unat b < 128"
  shows "\<not> bit b 7"
proof
  assume "bit b 7"
  then have "bit (unat b) 7"
    by (simp add: bit_unsigned_iff)
  moreover have "take_bit 7 (unat b) = unat b"
    using assms by (simp add: take_bit_nat_eq_self)
  ultimately have "bit (take_bit 7 (unat b)) 7"
    by simp
  then show False
    by (simp add: bit_take_bit_iff)
qed

text \<open>
  A \<^verbatim>\<open>pathLength\<close> from 0 to 127 is copied as it is on every platform, and one from 0 to
  255 where \<^verbatim>\<open>char\<close> is unsigned.
\<close>

lemma copy_size_small:
  assumes "unat pathLength < 128"
  shows "copy_size ck pathLength = unat pathLength"
proof -
  have "copy_size UnsignedChar pathLength = unat pathLength"
    using assms by (simp add: copy_size_unsigned)
  then have u: "unat (to_byte pathLength) = unat pathLength"
    by (simp add: copy_size_def to_size_t_def unat_ucast_byte)
  then have "\<not> bit (to_byte pathLength) 7"
    using assms small_byte_nonneg [of "to_byte pathLength"] by simp
  then show ?thesis
    using u
    by (cases ck)
      (simp_all add: copy_size_def to_size_t_def scast_nonneg_byte unat_ucast_byte)
qed

lemma copy_size_256: "copy_size ck 256 = 0"
  by (cases ck) (simp_all add: copy_size_def to_size_t_def to_byte_def)

lemma copy_size_0: "copy_size ck 0 = 0"
  by (cases ck) (simp_all add: copy_size_def to_size_t_def to_byte_def)

lemma copy_size_255_unsigned: "copy_size UnsignedChar 255 = 255"
  by (simp add: copy_size_def to_size_t_def to_byte_def)

lemma copy_size_branch: "unat (to_size_t ck (to_byte 2)) = 2"
  by (cases ck) (simp_all add: to_size_t_def to_byte_def)

section \<open>The header byte\<close>

lemma and_flag_signed: "(scast (b :: byte) AND (8 :: c_int) \<noteq> 0) = bit b 3"
proof -
  have "(8 :: c_int) = push_bit 3 1"
    by simp
  then show ?thesis
    by (simp only: bit_iff_and_push_bit_not_eq_0 [symmetric] bit_signed_iff) simp
qed

lemma and_flag_unsigned: "(ucast (b :: byte) AND (8 :: c_int) \<noteq> 0) = bit b 3"
proof -
  have "(8 :: c_int) = push_bit 3 1"
    by simp
  then show ?thesis
    by (simp only: bit_iff_and_push_bit_not_eq_0 [symmetric] bit_unsigned_iff) simp
qed

lemma IsDirty_bit: "MerkleNode_IsDirty ck node = bit (Header node) 3"
  by (cases ck)
    (simp_all add: MerkleNode_IsDirty_def promote_def IsDirtyFlag_def and_flag_signed
      and_flag_unsigned)

lemma NodeType_mask:
  "MerkleNode_NodeType ck node = ucast (drop_bit 1 (Header node AND NodeTypeFlag))"
proof (cases ck)
  case SignedChar
  have "signed_drop_bit 1 (scast (Header node) AND (6 :: c_int))
      = ucast (drop_bit 1 (Header node AND 6))"
    by (rule bit_word_eqI) (auto simp: bit_simps bit_numeral_rec split: nat.splits)
  with SignedChar show ?thesis
    by (simp add: MerkleNode_NodeType_def promote_def NodeTypeFlag_def)
next
  case UnsignedChar
  have "signed_drop_bit 1 (ucast (Header node) AND (6 :: c_int))
      = ucast (drop_bit 1 (Header node AND 6))"
    by (rule bit_word_eqI) (auto simp: bit_simps bit_numeral_rec split: nat.splits)
  with UnsignedChar show ?thesis
    by (simp add: MerkleNode_NodeType_def promote_def NodeTypeFlag_def)
qed

lemma NodeType_bits:
  "bit (MerkleNode_NodeType ck node) k
     = (k = 0 \<and> bit (Header node) 1 \<or> k = 1 \<and> bit (Header node) 2)"
  by (auto simp: NodeType_mask NodeTypeFlag_def bit_simps bit_numeral_rec numeral_2_eq_2
      split: nat.splits)

lemma pack_header_values:
  "pack_header ck Leaf True = 8" "pack_header ck Extension True = 10"
  "pack_header ck Branch True = 12" "pack_header ck Leaf False = 0"
  "pack_header ck Extension False = 2" "pack_header ck Branch False = 4"
  by (cases ck; simp add: pack_header_def to_byte_def promote_def IsDirtyFlag_def Leaf_def
      Extension_def Branch_def)+

section \<open>What a constructor call returns\<close>

lemma alloc_copy:
  "memcpy (m @ [replicate (unat n) 0]) (Addr (length m)) src n =
     (case src of
        Null \<Rightarrow> Inl NullAccess
      | Addr s \<Rightarrow>
          if s < length m \<and> unat n \<le> length (m ! s)
          then Inr (m @ [take (unat n) (m ! s)])
          else Inl OutOfBounds)"
  by (auto simp: memcpy_def nth_append split: pointer.splits)

lemma newLeaf_eq:
  "MerkleNode_newLeaf ck m nibblePath pathLength =
     (if copy_size ck pathLength > PTRDIFF_MAX then Inl NullAccess
      else case nibblePath of
        Null \<Rightarrow> Inl NullAccess
      | Addr s \<Rightarrow>
          if s < length m \<and> copy_size ck pathLength \<le> length (m ! s)
          then Inr (\<lparr>Header = pack_header ck Leaf True, Keccak = replicate 32 0,
                     Length = to_byte pathLength, Data = Addr (length m)\<rparr>,
                    m @ [take (copy_size ck pathLength) (m ! s)])
          else Inl OutOfBounds)"
  by (simp add: MerkleNode_newLeaf_def zero_MerkleNode_def memset_def malloc_def
      memcpy_def [of m Null] alloc_copy copy_size_def pack_header_def Let_def
      split: pointer.splits)

lemma newExtension_eq:
  "MerkleNode_newExtension ck m nibblePath pathLength =
     (if copy_size ck pathLength > PTRDIFF_MAX then Inl NullAccess
      else case nibblePath of
        Null \<Rightarrow> Inl NullAccess
      | Addr s \<Rightarrow>
          if s < length m \<and> copy_size ck pathLength \<le> length (m ! s)
          then Inr (\<lparr>Header = pack_header ck Extension True, Keccak = replicate 32 0,
                     Length = to_byte pathLength, Data = Addr (length m)\<rparr>,
                    m @ [take (copy_size ck pathLength) (m ! s)])
          else Inl OutOfBounds)"
  by (simp add: MerkleNode_newExtension_def zero_MerkleNode_def memset_def malloc_def
      memcpy_def [of m Null] alloc_copy copy_size_def pack_header_def Let_def
      split: pointer.splits)

lemma newBranch_eq:
  "MerkleNode_newBranch ck m nibbles =
     (case nibbles of
        Null \<Rightarrow> Inl NullAccess
      | Addr s \<Rightarrow>
          if s < length m \<and> 2 \<le> length (m ! s)
          then Inr (\<lparr>Header = pack_header ck Branch True, Keccak = replicate 32 0,
                     Length = 2, Data = Addr (length m)\<rparr>,
                    m @ [take 2 (m ! s)])
          else Inl OutOfBounds)"
proof -
  have two: "to_byte 2 = 2"
    by (simp add: to_byte_def)
  have sz: "unat (to_size_t ck 2) = 2"
    using copy_size_branch [of ck] by (simp add: two)
  have "memcpy (m @ [replicate (unat (to_size_t ck 2)) 0]) (Addr (length m)) nibbles
          (to_size_t ck 2) =
        (case nibbles of
           Null \<Rightarrow> Inl NullAccess
         | Addr s \<Rightarrow>
             if s < length m \<and> 2 \<le> length (m ! s)
             then Inr (m @ [take 2 (m ! s)])
             else Inl OutOfBounds)"
    using alloc_copy [of m "to_size_t ck 2" nibbles] by (simp only: sz)
  then show ?thesis
    by (simp add: MerkleNode_newBranch_def zero_MerkleNode_def memset_def malloc_def
        pack_header_def Let_def two sz PTRDIFF_MAX_def split: pointer.splits)
qed

text \<open>
  The calls that return a node are exactly the defined ones; every other call is a fault
  of the C program.
\<close>

lemma newLeaf_returns_iff:
  "(\<exists>r. MerkleNode_newLeaf ck m nibblePath pathLength = Inr r)
     = defined_call ck m nibblePath pathLength"
  by (auto simp: newLeaf_eq defined_call_def readable_def split: pointer.splits)

lemma newExtension_returns_iff:
  "(\<exists>r. MerkleNode_newExtension ck m nibblePath pathLength = Inr r)
     = defined_call ck m nibblePath pathLength"
  by (auto simp: newExtension_eq defined_call_def readable_def split: pointer.splits)

lemma newBranch_returns_iff:
  "(\<exists>r. MerkleNode_newBranch ck m nibbles = Inr r) = readable m nibbles 2"
  by (auto simp: newBranch_eq readable_def split: pointer.splits)

lemma defined_call_small:
  assumes "unat pathLength < 128" and "readable m nibblePath (unat pathLength)"
  shows "defined_call ck m nibblePath pathLength"
  using assms by (simp add: defined_call_def copy_size_small PTRDIFF_MAX_def)

lemma defined_call_unsigned:
  assumes "unat pathLength < 256" and "readable m nibblePath (unat pathLength)"
  shows "defined_call UnsignedChar m nibblePath pathLength"
  using assms by (simp add: defined_call_def copy_size_unsigned PTRDIFF_MAX_def)

text \<open>
  Where \<^verbatim>\<open>char\<close> is signed, a \<^verbatim>\<open>pathLength\<close> whose low byte is 128 or more is stored as
  a negative \<^verbatim>\<open>Length\<close>: the request to \<^verbatim>\<open>malloc\<close> is refused and \<^verbatim>\<open>memcpy\<close> is called
  with the null pointer.
\<close>

lemma signed_char_long_path:
  assumes "bit (to_byte pathLength) 7"
  shows "MerkleNode_newLeaf SignedChar m nibblePath pathLength = Inl NullAccess"
    and "MerkleNode_newExtension SignedChar m nibblePath pathLength = Inl NullAccess"
proof -
  have "(2 :: nat) ^ 64 - 128 \<le> copy_size SignedChar pathLength"
    using unat_scast_neg_byte [OF assms] by (simp add: copy_size_def to_size_t_def)
  then have big: "PTRDIFF_MAX < copy_size SignedChar pathLength"
    by (simp add: PTRDIFF_MAX_def)
  show "MerkleNode_newLeaf SignedChar m nibblePath pathLength = Inl NullAccess"
    using big by (simp add: newLeaf_eq)
  show "MerkleNode_newExtension SignedChar m nibblePath pathLength = Inl NullAccess"
    using big by (simp add: newExtension_eq)
qed

lemma newLeaf_defined:
  assumes "defined_call ck m nibblePath pathLength"
  shows "MerkleNode_newLeaf ck m nibblePath pathLength =
     Inr (\<lparr>Header = pack_header ck Leaf True, Keccak = replicate 32 0,
            Length = to_byte pathLength, Data = Addr (length m)\<rparr>,
          m @ [take (copy_size ck pathLength) (bytes_at m nibblePath)])"
  using assms
  by (auto simp: newLeaf_eq defined_call_def readable_def bytes_at_def
      split: pointer.splits)

lemma newExtension_defined:
  assumes "defined_call ck m nibblePath pathLength"
  shows "MerkleNode_newExtension ck m nibblePath pathLength =
     Inr (\<lparr>Header = pack_header ck Extension True, Keccak = replicate 32 0,
            Length = to_byte pathLength, Data = Addr (length m)\<rparr>,
          m @ [take (copy_size ck pathLength) (bytes_at m nibblePath)])"
  using assms
  by (auto simp: newExtension_eq defined_call_def readable_def bytes_at_def
      split: pointer.splits)

lemma newBranch_defined:
  assumes "readable m nibbles 2"
  shows "MerkleNode_newBranch ck m nibbles =
     Inr (\<lparr>Header = pack_header ck Branch True, Keccak = replicate 32 0,
            Length = 2, Data = Addr (length m)\<rparr>,
          m @ [take 2 (bytes_at m nibbles)])"
  using assms
  by (auto simp: newBranch_eq readable_def bytes_at_def split: pointer.splits)

text \<open>The new object, and the objects that were there before the call.\<close>

lemma bytes_at_new: "bytes_at (m @ [bs]) (Addr (length m)) = bs"
  by (simp add: bytes_at_def)

lemma bytes_at_old: "readable m p k \<Longrightarrow> bytes_at (m @ [bs]) p = bytes_at m p"
  by (auto simp: bytes_at_def readable_def nth_append split: pointer.splits)

lemma readable_length: "readable m p k \<Longrightarrow> k \<le> length (bytes_at m p)"
  by (auto simp: bytes_at_def readable_def split: pointer.splits)

lemma defined_call_length:
  assumes "defined_call ck m nibblePath pathLength"
  shows "unat (to_byte pathLength) = copy_size ck pathLength"
    and "copy_size ck pathLength \<le> length (bytes_at m nibblePath)"
  using assms to_size_t_in_range [of ck "to_byte pathLength"]
  by (simp_all add: defined_call_def copy_size_def readable_length)

lemma sint_nonneg_byte:
  fixes b :: byte
  assumes "\<not> bit b 7"
  shows "sint b = uint b"
proof (rule bit_eqI)
  fix n
  have "bit b n \<Longrightarrow> n < 8"
    using bit_imp_le_length [of b n] by simp
  then show "bit (sint b) n = bit (uint b) n"
    using assms by (auto simp: bit_sint_iff bit_uint_iff)
qed

lemma defined_call_byte_value:
  assumes "defined_call ck m nibblePath pathLength"
  shows "byte_value ck (to_byte pathLength) = int (copy_size ck pathLength)"
proof (cases ck)
  case UnsignedChar
  then show ?thesis
    by (simp add: byte_value_def copy_size_def to_size_t_def unat_ucast_byte)
next
  case SignedChar
  have "\<not> bit (to_byte pathLength) 7"
  proof
    assume "bit (to_byte pathLength) 7"
    from unat_scast_neg_byte [OF this] assms SignedChar show False
      by (simp add: defined_call_def copy_size_def to_size_t_def PTRDIFF_MAX_def)
  qed
  with SignedChar show ?thesis
    by (simp add: byte_value_def copy_size_def to_size_t_def scast_nonneg_byte
        unat_ucast_byte sint_nonneg_byte)
qed

text \<open>What the accessors read from the three headers the constructors write.\<close>

lemma packed_dirty:
  "MerkleNode_IsDirty ck
     \<lparr>Header = pack_header ck Leaf True, Keccak = k, Length = l, Data = d\<rparr>"
  "MerkleNode_IsDirty ck
     \<lparr>Header = pack_header ck Extension True, Keccak = k, Length = l, Data = d\<rparr>"
  "MerkleNode_IsDirty ck
     \<lparr>Header = pack_header ck Branch True, Keccak = k, Length = l, Data = d\<rparr>"
  by (simp_all add: IsDirty_bit pack_header_values)

lemma packed_type:
  "MerkleNode_NodeType ck
     \<lparr>Header = pack_header ck Leaf True, Keccak = k, Length = l, Data = d\<rparr> = Leaf"
  "MerkleNode_NodeType ck
     \<lparr>Header = pack_header ck Extension True, Keccak = k, Length = l, Data = d\<rparr>
     = Extension"
  "MerkleNode_NodeType ck
     \<lparr>Header = pack_header ck Branch True, Keccak = k, Length = l, Data = d\<rparr> = Branch"
  by (simp_all only: NodeType_mask pack_header_values MerkleNode.simps)
    (simp_all add: NodeTypeFlag_def Leaf_def Extension_def Branch_def)

section \<open>Header codec\<close>

text \<open>
  C1. Header round-trip: for every type among Leaf, Extension and Branch and for either
  value of the dirty flag, a node whose header byte is packed from that type and flag
  (\<^verbatim>\<open>(type << 1) | IsDirtyFlag\<close> when dirty, \<^verbatim>\<open>type << 1\<close> when clean) reads back the same
  type through \<^verbatim>\<open>MerkleNode_NodeType\<close> and the same flag through \<^verbatim>\<open>MerkleNode_IsDirty\<close>,
  whatever the signedness of \<^verbatim>\<open>char\<close> and the other fields of the node.
\<close>

theorem header_roundtrip:
  "t \<in> {Leaf, Extension, Branch} \<Longrightarrow>
     MerkleNode_NodeType ck (node\<lparr>Header := pack_header ck t dirty\<rparr>) = t
     \<and> MerkleNode_IsDirty ck (node\<lparr>Header := pack_header ck t dirty\<rparr>) = dirty"
proof -
  assume "t \<in> {Leaf, Extension, Branch}"
  then consider (L) "t = Leaf" | (E) "t = Extension" | (B) "t = Branch"
    by auto
  then show ?thesis
  proof cases
    case L
    show ?thesis
      unfolding L
      by (cases dirty; simp only: pack_header_values;
          simp add: IsDirty_bit NodeType_mask NodeTypeFlag_def Leaf_def)
  next
    case E
    show ?thesis
      unfolding E
      by (cases dirty; simp only: pack_header_values;
          simp add: IsDirty_bit NodeType_mask NodeTypeFlag_def Extension_def)
  next
    case B
    show ?thesis
      unfolding B
      by (cases dirty; simp only: pack_header_values;
          simp add: IsDirty_bit NodeType_mask NodeTypeFlag_def Branch_def)
  qed
qed

theorem header_roundtrip_witness:
  "Branch \<in> {Leaf, Extension, Branch}
   \<and> MerkleNode_NodeType SignedChar
        (zero_MerkleNode\<lparr>Header := pack_header SignedChar Branch False\<rparr>) = Branch
   \<and> MerkleNode_IsDirty SignedChar
        (zero_MerkleNode\<lparr>Header := pack_header SignedChar Branch False\<rparr>) = False"
proof -
  have h: "Branch \<in> {Leaf, Extension, Branch}"
    by simp
  show ?thesis
    by (rule conjI [OF h header_roundtrip [OF h]])
qed

text \<open>
  C2. Header bit layout: for every header byte, \<^verbatim>\<open>MerkleNode_IsDirty\<close> reads exactly
  bit 3 (the mask \<^verbatim>\<open>0b1000\<close>); \<^verbatim>\<open>MerkleNode_NodeType\<close> reads exactly bits 1 and 2 (the
  mask \<^verbatim>\<open>0b0110\<close>, shifted right by one), bit 1 of the header being bit 0 of the tag and
  bit 2 of the header bit 1 of the tag, with no other bit of the tag set; bit 0 of the
  header is unused: flipping it changes neither reading, and packing never sets it.
\<close>

theorem header_bit_layout:
  "MerkleNode_IsDirty ck node = bit (Header node) 3
   \<and> MerkleNode_IsDirty ck node = (Header node AND 8 \<noteq> 0)
   \<and> MerkleNode_NodeType ck node = ucast (drop_bit 1 (Header node AND 6))
   \<and> bit (MerkleNode_NodeType ck node) k
       = (k = 0 \<and> bit (Header node) 1 \<or> k = 1 \<and> bit (Header node) 2)
   \<and> MerkleNode_IsDirty ck (node\<lparr>Header := Header node XOR 1\<rparr>)
       = MerkleNode_IsDirty ck node
   \<and> MerkleNode_NodeType ck (node\<lparr>Header := Header node XOR 1\<rparr>)
       = MerkleNode_NodeType ck node
   \<and> \<not> bit (pack_header ck t dirty) 0"
proof -
  have mask: "bit (Header node) 3 = (Header node AND 8 \<noteq> 0)"
  proof -
    have "(8 :: byte) = push_bit 3 1"
      by simp
    then show ?thesis
      by (simp only: bit_iff_and_push_bit_not_eq_0 [symmetric])
  qed
  have flip_type:
    "MerkleNode_NodeType ck (node\<lparr>Header := Header node XOR 1\<rparr>)
       = MerkleNode_NodeType ck node"
    by (rule bit_word_eqI) (simp add: NodeType_bits bit_xor_iff bit_1_iff)
  have flip_dirty:
    "MerkleNode_IsDirty ck (node\<lparr>Header := Header node XOR 1\<rparr>)
       = MerkleNode_IsDirty ck node"
    by (simp add: IsDirty_bit bit_xor_iff bit_1_iff)
  have flag0: "\<not> bit (promote ck IsDirtyFlag) 0"
    by (cases ck) (simp_all add: promote_def IsDirtyFlag_def)
  have dirty0: "\<not> bit (to_byte (push_bit 1 x OR promote ck IsDirtyFlag)) 0" for x
    using flag0 by (simp only: to_byte_def bit_ucast_iff bit_or_iff bit_push_bit_iff) simp
  have clean0: "\<not> bit (to_byte (push_bit 1 x)) 0" for x :: c_int
    by (simp only: to_byte_def bit_ucast_iff bit_push_bit_iff) simp
  have bit0: "\<not> bit (pack_header ck t dirty) 0"
    using dirty0 clean0 by (cases dirty) (simp_all add: pack_header_def)
  have dirty_mask: "MerkleNode_IsDirty ck node = (Header node AND 8 \<noteq> 0)"
    using mask by (simp only: IsDirty_bit)
  have type_mask: "MerkleNode_NodeType ck node = ucast (drop_bit 1 (Header node AND 6))"
    by (simp only: NodeType_mask NodeTypeFlag_def)
  show ?thesis
    by (intro conjI)
      (rule IsDirty_bit, rule dirty_mask, rule type_mask, rule NodeType_bits,
        rule flip_dirty, rule flip_type, rule bit0)
qed

text \<open>
  C3, as the code has it. \<^verbatim>\<open>MerkleNode_NodeType\<close> has no error result: on a header byte
  whose two tag bits are both set it returns the integer 3 cast to the enumeration, a
  value that is none of Leaf, Extension and Branch.
\<close>

theorem NodeType_reserved_tag:
  "Header node AND NodeTypeFlag = NodeTypeFlag \<Longrightarrow>
     MerkleNode_NodeType ck node = 3
     \<and> MerkleNode_NodeType ck node \<notin> {Leaf, Extension, Branch}"
  by (simp add: NodeType_mask Leaf_def Extension_def Branch_def NodeTypeFlag_def)

theorem NodeType_reserved_tag_witness:
  "Header \<lparr>Header = 14, Keccak = replicate 32 0, Length = 0, Data = Null\<rparr> AND NodeTypeFlag
     = NodeTypeFlag
   \<and> MerkleNode_NodeType UnsignedChar
        \<lparr>Header = 14, Keccak = replicate 32 0, Length = 0, Data = Null\<rparr> = 3
   \<and> MerkleNode_NodeType UnsignedChar
        \<lparr>Header = 14, Keccak = replicate 32 0, Length = 0, Data = Null\<rparr>
       \<notin> {Leaf, Extension, Branch}"
proof -
  have h: "Header \<lparr>Header = 14, Keccak = replicate 32 0, Length = 0, Data = Null\<rparr>
      AND NodeTypeFlag = NodeTypeFlag"
    by (simp add: NodeTypeFlag_def)
  show ?thesis
    by (rule conjI [OF h NodeType_reserved_tag [OF h]])
qed

text \<open>
  C3, as the specification states it (unpacking a header whose tag field is 3 fails with
  an error and returns no node type), does not hold: the header byte \<^verbatim>\<open>0b0110\<close> is read
  as the type 3.
\<close>

theorem NodeType_reserved_tag_counterexample:
  "MerkleNode_NodeType SignedChar
     \<lparr>Header = 6, Keccak = replicate 32 0, Length = 0, Data = Null\<rparr> = 3
   \<and> (3 :: NodeType) \<notin> {Leaf, Extension, Branch}"
  by (simp add: NodeType_mask NodeTypeFlag_def Leaf_def Extension_def Branch_def)

section \<open>Constructors: the node returned\<close>

text \<open>
  C4. New nodes are dirty: on every defined call, \<^verbatim>\<open>MerkleNode_newLeaf\<close>,
  \<^verbatim>\<open>MerkleNode_newExtension\<close> and \<^verbatim>\<open>MerkleNode_newBranch\<close> return a node, and
  \<^verbatim>\<open>MerkleNode_IsDirty\<close> is true of it.
\<close>

theorem new_nodes_dirty:
  "(defined_call ck m nibblePath pathLength \<longrightarrow>
      (\<exists>n m'. MerkleNode_newLeaf ck m nibblePath pathLength = Inr (n, m')
         \<and> MerkleNode_IsDirty ck n)
      \<and> (\<exists>n m'. MerkleNode_newExtension ck m nibblePath pathLength = Inr (n, m')
         \<and> MerkleNode_IsDirty ck n))
   \<and> (readable m nibbles 2 \<longrightarrow>
      (\<exists>n m'. MerkleNode_newBranch ck m nibbles = Inr (n, m')
         \<and> MerkleNode_IsDirty ck n))"
  by (simp add: newLeaf_defined newExtension_defined newBranch_defined packed_dirty)

theorem new_nodes_dirty_witness:
  "defined_call SignedChar [[2, 4, 6], [105, 105]] (Addr 0) 3
   \<and> readable [[2, 4, 6], [105, 105]] (Addr 1) 2
   \<and> (\<exists>n m'. MerkleNode_newLeaf SignedChar [[2, 4, 6], [105, 105]] (Addr 0) 3
         = Inr (n, m') \<and> MerkleNode_IsDirty SignedChar n)
   \<and> (\<exists>n m'. MerkleNode_newExtension SignedChar [[2, 4, 6], [105, 105]] (Addr 0) 3
         = Inr (n, m') \<and> MerkleNode_IsDirty SignedChar n)
   \<and> (\<exists>n m'. MerkleNode_newBranch SignedChar [[2, 4, 6], [105, 105]] (Addr 1)
         = Inr (n, m') \<and> MerkleNode_IsDirty SignedChar n)"
proof -
  have h1: "defined_call SignedChar [[2, 4, 6], [105, 105]] (Addr 0) 3"
    by (simp add: defined_call_def copy_size_def to_size_t_def to_byte_def readable_def
        PTRDIFF_MAX_def)
  have h2: "readable [[2, 4, 6], [105, 105]] (Addr 1) 2"
    by (simp add: readable_def)
  from h1 h2
    new_nodes_dirty [of SignedChar "[[2, 4, 6], [105, 105]]" "Addr 0" 3 "Addr 1"]
  show ?thesis
    by blast
qed

text \<open>
  C5. The stored length is the length of the payload: on every defined call of a
  constructor, the node's \<^verbatim>\<open>Data\<close> is the address of the block that was allocated, the
  block is filled with the first bytes of the caller's buffer, and its number of bytes
  is the \<^verbatim>\<open>Length\<close> field, read as the C program reads a \<^verbatim>\<open>byte\<close> (and as an unsigned
  byte): no padding, and nothing of the block cut off.
\<close>

theorem Length_is_payload_length:
  "(defined_call ck m nibblePath pathLength \<longrightarrow>
      (\<exists>n m'. MerkleNode_newLeaf ck m nibblePath pathLength = Inr (n, m')
         \<and> Data n = Addr (length m)
         \<and> int (length (bytes_at m' (Data n))) = byte_value ck (Length n)
         \<and> length (bytes_at m' (Data n)) = unat (Length n)
         \<and> bytes_at m' (Data n) = take (unat (Length n)) (bytes_at m nibblePath))
      \<and> (\<exists>n m'. MerkleNode_newExtension ck m nibblePath pathLength = Inr (n, m')
         \<and> Data n = Addr (length m)
         \<and> int (length (bytes_at m' (Data n))) = byte_value ck (Length n)
         \<and> length (bytes_at m' (Data n)) = unat (Length n)
         \<and> bytes_at m' (Data n) = take (unat (Length n)) (bytes_at m nibblePath)))
   \<and> (readable m nibbles 2 \<longrightarrow>
      (\<exists>n m'. MerkleNode_newBranch ck m nibbles = Inr (n, m')
         \<and> Data n = Addr (length m)
         \<and> int (length (bytes_at m' (Data n))) = byte_value ck (Length n)
         \<and> length (bytes_at m' (Data n)) = unat (Length n)
         \<and> bytes_at m' (Data n) = take (unat (Length n)) (bytes_at m nibbles)))"
proof -
  have two: "byte_value ck 2 = 2"
    by (cases ck) (simp_all add: byte_value_def)
  have path: "min (length (bytes_at m nibblePath)) (copy_size ck pathLength)
      = copy_size ck pathLength" if "defined_call ck m nibblePath pathLength"
    using defined_call_length(2) [OF that] by simp
  have bitmap: "min (length (bytes_at m nibbles)) 2 = 2" if "readable m nibbles 2"
    using readable_length [OF that] by simp
  show ?thesis
    by (simp add: newLeaf_defined newExtension_defined newBranch_defined bytes_at_new
        defined_call_length(1) defined_call_byte_value two path bitmap)
qed

theorem Length_is_payload_length_witness:
  "defined_call UnsignedChar [[1, 3, 5, 7], [105, 105]] (Addr 0) 4
   \<and> readable [[1, 3, 5, 7], [105, 105]] (Addr 1) 2
   \<and> (\<exists>n m'. MerkleNode_newLeaf UnsignedChar [[1, 3, 5, 7], [105, 105]] (Addr 0) 4
         = Inr (n, m')
         \<and> length (bytes_at m' (Data n)) = unat (Length n))
   \<and> (\<exists>n m'. MerkleNode_newExtension UnsignedChar [[1, 3, 5, 7], [105, 105]] (Addr 0) 4
         = Inr (n, m')
         \<and> length (bytes_at m' (Data n)) = unat (Length n))
   \<and> (\<exists>n m'. MerkleNode_newBranch UnsignedChar [[1, 3, 5, 7], [105, 105]] (Addr 1)
         = Inr (n, m')
         \<and> length (bytes_at m' (Data n)) = unat (Length n))"
proof -
  have h1: "defined_call UnsignedChar [[1, 3, 5, 7], [105, 105]] (Addr 0) 4"
    by (simp add: defined_call_def copy_size_def to_size_t_def to_byte_def readable_def
        PTRDIFF_MAX_def)
  have h2: "readable [[1, 3, 5, 7], [105, 105]] (Addr 1) 2"
    by (simp add: readable_def)
  from h1 h2
    Length_is_payload_length
      [of UnsignedChar "[[1, 3, 5, 7], [105, 105]]" "Addr 0" 4 "Addr 1"]
  show ?thesis
    by blast
qed

section \<open>Constructors: lengths at the boundary\<close>

text \<open>
  The \<^verbatim>\<open>Length\<close> field is one \<^verbatim>\<open>byte\<close> and the constructors check nothing: a
  \<^verbatim>\<open>pathLength\<close> of 256 is stored as 0. Where \<^verbatim>\<open>char\<close> is signed, a \<^verbatim>\<open>pathLength\<close> of 255
  is stored as \<open>-1\<close>, the request to \<^verbatim>\<open>malloc\<close> is \<open>2 ^ 64 - 1\<close> bytes, and \<^verbatim>\<open>memcpy\<close>
  writes through the null pointer that comes back.
\<close>

lemma newLeaf_255_signed_char:
  "MerkleNode_newLeaf SignedChar m nibblePath 255 = Inl NullAccess"
  by (rule signed_char_long_path) (simp add: to_byte_def)

text \<open>
  C6, as the code has it. With a path of 255 bytes \<^verbatim>\<open>MerkleNode_newLeaf\<close> returns a node
  of payload length 255 where \<^verbatim>\<open>char\<close> is unsigned. With a \<^verbatim>\<open>pathLength\<close> of 256 it
  does not fail, whatever the signedness of \<^verbatim>\<open>char\<close>: it returns a node whose \<^verbatim>\<open>Length\<close>
  is 0 and whose payload is empty.
\<close>

theorem newLeaf_boundary:
  "(readable m nibblePath 255 \<longrightarrow>
      (\<exists>n m'. MerkleNode_newLeaf UnsignedChar m nibblePath 255 = Inr (n, m')
         \<and> byte_value UnsignedChar (Length n) = 255
         \<and> length (bytes_at m' (Data n)) = 255
         \<and> bytes_at m' (Data n) = take 255 (bytes_at m nibblePath)))
   \<and> (readable m nibblePath 256 \<longrightarrow>
      (\<exists>n m'. MerkleNode_newLeaf ck m nibblePath 256 = Inr (n, m')
         \<and> Length n = 0
         \<and> bytes_at m' (Data n) = []))"
proof -
  have d255: "defined_call UnsignedChar m nibblePath 255" if "readable m nibblePath 255"
    using that by (simp add: defined_call_def copy_size_255_unsigned PTRDIFF_MAX_def)
  have d256: "defined_call ck m nibblePath 256" if "readable m nibblePath 256"
    using that
    by (auto simp: defined_call_def copy_size_256 readable_def split: pointer.splits)
  have len: "min (length (bytes_at m nibblePath)) 255 = 255" if "readable m nibblePath 255"
    using readable_length [OF that] by simp
  have b255: "byte_value UnsignedChar (to_byte 255) = 255"
    by (simp add: byte_value_def to_byte_def)
  have b256: "to_byte 256 = 0"
    by (simp add: to_byte_def)
  show ?thesis
    by (simp add: newLeaf_defined d255 d256 bytes_at_new copy_size_255_unsigned
        copy_size_256 len b255 b256)
qed

theorem newLeaf_boundary_witness:
  "readable [replicate 256 1] (Addr 0) 255
   \<and> readable [replicate 256 1] (Addr 0) 256
   \<and> (\<exists>n m'. MerkleNode_newLeaf UnsignedChar [replicate 256 1] (Addr 0) 255 = Inr (n, m')
         \<and> length (bytes_at m' (Data n)) = 255)
   \<and> (\<exists>n m'. MerkleNode_newLeaf SignedChar [replicate 256 1] (Addr 0) 256 = Inr (n, m')
         \<and> Length n = 0
         \<and> bytes_at m' (Data n) = [])"
proof -
  have h1: "readable [replicate 256 1] (Addr 0) 255"
    by (simp add: readable_def)
  have h2: "readable [replicate 256 1] (Addr 0) 256"
    by (simp add: readable_def)
  from h1 h2 newLeaf_boundary [of "[replicate 256 1]" "Addr 0" SignedChar]
  show ?thesis
    by blast
qed

text \<open>
  C6, as the specification states it (a path of length 256 fails with PayloadTooLarge
  rather than succeeding or truncating), does not hold: called on a buffer of 256 bytes
  with \<^verbatim>\<open>pathLength\<close> 256, \<^verbatim>\<open>MerkleNode_newLeaf\<close> returns a leaf of length 0 with an empty
  payload, for an unsigned and for a signed \<^verbatim>\<open>char\<close>.
\<close>

theorem newLeaf_256_counterexample:
  "MerkleNode_newLeaf UnsignedChar [replicate 256 1] (Addr 0) 256
     = Inr (\<lparr>Header = 8, Keccak = replicate 32 0, Length = 0, Data = Addr 1\<rparr>,
            [replicate 256 1, []])
   \<and> MerkleNode_newLeaf SignedChar [replicate 256 1] (Addr 0) 256
     = Inr (\<lparr>Header = 8, Keccak = replicate 32 0, Length = 0, Data = Addr 1\<rparr>,
            [replicate 256 1, []])"
  by (simp add: newLeaf_eq copy_size_256 pack_header_values to_byte_def PTRDIFF_MAX_def)

text \<open>
  C7, as the code has it. \<^verbatim>\<open>MerkleNode_newExtension\<close> does not check for an empty path:
  with \<^verbatim>\<open>pathLength\<close> 0 and a valid pointer it returns a dirty Extension node of length 0
  with an empty payload.
\<close>

theorem newExtension_empty_path:
  "readable m nibblePath 0 \<Longrightarrow>
     \<exists>n m'. MerkleNode_newExtension ck m nibblePath 0 = Inr (n, m')
       \<and> MerkleNode_NodeType ck n = Extension
       \<and> MerkleNode_IsDirty ck n
       \<and> Length n = 0
       \<and> bytes_at m' (Data n) = []"
proof -
  assume r: "readable m nibblePath 0"
  then have d: "defined_call ck m nibblePath 0"
    by (simp add: defined_call_def copy_size_0)
  have z: "to_byte 0 = 0"
    by (simp add: to_byte_def)
  show ?thesis
    by (simp add: newExtension_defined [OF d] packed_type packed_dirty bytes_at_new
        copy_size_0 z)
qed

theorem newExtension_empty_path_witness:
  "readable [[1, 3, 5, 7]] (Addr 0) 0
   \<and> (\<exists>n m'. MerkleNode_newExtension SignedChar [[1, 3, 5, 7]] (Addr 0) 0 = Inr (n, m')
         \<and> MerkleNode_NodeType SignedChar n = Extension
         \<and> MerkleNode_IsDirty SignedChar n
         \<and> Length n = 0
         \<and> bytes_at m' (Data n) = [])"
proof -
  have h: "readable [[1, 3, 5, 7]] (Addr 0) 0"
    by (simp add: readable_def)
  show ?thesis
    by (rule conjI [OF h newExtension_empty_path [OF h]])
qed

text \<open>
  C7, as the specification states it (an empty path fails with EmptyPathError instead of
  returning a node), does not hold: on an empty buffer with \<^verbatim>\<open>pathLength\<close> 0 the
  constructor returns a node with header \<^verbatim>\<open>0b1010\<close>.
\<close>

theorem newExtension_empty_counterexample:
  "MerkleNode_newExtension UnsignedChar [[]] (Addr 0) 0
     = Inr (\<lparr>Header = 10, Keccak = replicate 32 0, Length = 0, Data = Addr 1\<rparr>, [[], []])"
  by (simp add: newExtension_eq copy_size_0 pack_header_values to_byte_def PTRDIFF_MAX_def)

section \<open>Constructors: payload, type and frame\<close>

text \<open>
  C8. For every bitmap the caller supplies (an object of at least two bytes),
  \<^verbatim>\<open>MerkleNode_newBranch\<close> returns a node whose \<^verbatim>\<open>Length\<close> is exactly 2 and whose payload
  is a block of two bytes, equal to the first two bytes of the bitmap.
\<close>

theorem newBranch_payload:
  "readable m nibbles 2 \<Longrightarrow>
     \<exists>n m'. MerkleNode_newBranch ck m nibbles = Inr (n, m')
       \<and> Length n = 2
       \<and> byte_value ck (Length n) = 2
       \<and> length (bytes_at m' (Data n)) = 2
       \<and> bytes_at m' (Data n) = take 2 (bytes_at m nibbles)"
proof -
  assume r: "readable m nibbles 2"
  have two: "byte_value ck 2 = 2"
    by (cases ck) (simp_all add: byte_value_def)
  have "min (length (bytes_at m nibbles)) 2 = 2"
    using readable_length [OF r] by simp
  then show ?thesis
    by (simp add: newBranch_defined [OF r] bytes_at_new two)
qed

theorem newBranch_payload_witness:
  "readable [[105, 105]] (Addr 0) 2
   \<and> (\<exists>n m'. MerkleNode_newBranch SignedChar [[105, 105]] (Addr 0) = Inr (n, m')
         \<and> Length n = 2
         \<and> byte_value SignedChar (Length n) = 2
         \<and> length (bytes_at m' (Data n)) = 2
         \<and> bytes_at m' (Data n) = take 2 (bytes_at [[105, 105]] (Addr 0)))"
proof -
  have h: "readable [[105, 105]] (Addr 0) 2"
    by (simp add: readable_def)
  show ?thesis
    by (rule conjI [OF h newBranch_payload [OF h]])
qed

text \<open>
  C9. The node type is fixed at construction: \<^verbatim>\<open>MerkleNode_NodeType\<close> is Leaf on the node
  \<^verbatim>\<open>MerkleNode_newLeaf\<close> returns, Extension on the node \<^verbatim>\<open>MerkleNode_newExtension\<close> returns
  and Branch on the node \<^verbatim>\<open>MerkleNode_newBranch\<close> returns. No operation changes it
  afterwards: the two accessors take the node by value and return a \<^verbatim>\<open>bool\<close> and a
  \<^verbatim>\<open>NodeType\<close> only, and a constructor call writes to nothing but its own new block, so
  every object that existed before the call is the same after it.
\<close>

theorem node_type_fixed:
  "(defined_call ck m nibblePath pathLength \<longrightarrow>
      (\<exists>n m'. MerkleNode_newLeaf ck m nibblePath pathLength = Inr (n, m')
         \<and> MerkleNode_NodeType ck n = Leaf
         \<and> take (length m) m' = m \<and> length m' = Suc (length m))
      \<and> (\<exists>n m'. MerkleNode_newExtension ck m nibblePath pathLength = Inr (n, m')
         \<and> MerkleNode_NodeType ck n = Extension
         \<and> take (length m) m' = m \<and> length m' = Suc (length m)))
   \<and> (readable m nibbles 2 \<longrightarrow>
      (\<exists>n m'. MerkleNode_newBranch ck m nibbles = Inr (n, m')
         \<and> MerkleNode_NodeType ck n = Branch
         \<and> take (length m) m' = m \<and> length m' = Suc (length m)))"
  by (simp add: newLeaf_defined newExtension_defined newBranch_defined packed_type)

theorem node_type_fixed_witness:
  "defined_call SignedChar [[2, 4, 6], [105, 105]] (Addr 0) 3
   \<and> readable [[2, 4, 6], [105, 105]] (Addr 1) 2
   \<and> (\<exists>n m'. MerkleNode_newLeaf SignedChar [[2, 4, 6], [105, 105]] (Addr 0) 3
         = Inr (n, m') \<and> MerkleNode_NodeType SignedChar n = Leaf)
   \<and> (\<exists>n m'. MerkleNode_newExtension SignedChar [[2, 4, 6], [105, 105]] (Addr 0) 3
         = Inr (n, m') \<and> MerkleNode_NodeType SignedChar n = Extension)
   \<and> (\<exists>n m'. MerkleNode_newBranch SignedChar [[2, 4, 6], [105, 105]] (Addr 1)
         = Inr (n, m') \<and> MerkleNode_NodeType SignedChar n = Branch)"
proof -
  have h1: "defined_call SignedChar [[2, 4, 6], [105, 105]] (Addr 0) 3"
    by (simp add: defined_call_def copy_size_def to_size_t_def to_byte_def readable_def
        PTRDIFF_MAX_def)
  have h2: "readable [[2, 4, 6], [105, 105]] (Addr 1) 2"
    by (simp add: readable_def)
  from h1 h2
    node_type_fixed [of SignedChar "[[2, 4, 6], [105, 105]]" "Addr 0" 3 "Addr 1"]
  show ?thesis
    by blast
qed

text \<open>
  C10. Every constructor, \<^verbatim>\<open>MerkleNode_newExtension\<close> included, returns a node whose
  \<^verbatim>\<open>Keccak\<close> field is 32 zero bytes, and leaves the caller's input buffer as it was: the
  memory after the call is the memory before it with the new block added.
\<close>

theorem constructors_zero_Keccak_keep_input:
  "(defined_call ck m nibblePath pathLength \<longrightarrow>
      (\<exists>n m'. MerkleNode_newLeaf ck m nibblePath pathLength = Inr (n, m')
         \<and> Keccak n = replicate 32 0
         \<and> bytes_at m' nibblePath = bytes_at m nibblePath
         \<and> take (length m) m' = m)
      \<and> (\<exists>n m'. MerkleNode_newExtension ck m nibblePath pathLength = Inr (n, m')
         \<and> Keccak n = replicate 32 0
         \<and> bytes_at m' nibblePath = bytes_at m nibblePath
         \<and> take (length m) m' = m))
   \<and> (readable m nibbles 2 \<longrightarrow>
      (\<exists>n m'. MerkleNode_newBranch ck m nibbles = Inr (n, m')
         \<and> Keccak n = replicate 32 0
         \<and> bytes_at m' nibbles = bytes_at m nibbles
         \<and> take (length m) m' = m))"
proof -
  have path: "bytes_at (m @ [bs]) nibblePath = bytes_at m nibblePath"
    if "defined_call ck m nibblePath pathLength" for bs
    using that bytes_at_old [of m nibblePath "copy_size ck pathLength" bs]
    by (simp add: defined_call_def)
  show ?thesis
    by (simp add: newLeaf_defined newExtension_defined newBranch_defined path
        bytes_at_old [of m nibbles 2])
qed

theorem constructors_zero_Keccak_keep_input_witness:
  "defined_call UnsignedChar [[1, 3, 5, 7], [105, 105]] (Addr 0) 4
   \<and> readable [[1, 3, 5, 7], [105, 105]] (Addr 1) 2
   \<and> (\<exists>n m'. MerkleNode_newLeaf UnsignedChar [[1, 3, 5, 7], [105, 105]] (Addr 0) 4
         = Inr (n, m')
         \<and> Keccak n = replicate 32 0
         \<and> bytes_at m' (Addr 0) = bytes_at [[1, 3, 5, 7], [105, 105]] (Addr 0))
   \<and> (\<exists>n m'. MerkleNode_newExtension UnsignedChar [[1, 3, 5, 7], [105, 105]] (Addr 0) 4
         = Inr (n, m')
         \<and> Keccak n = replicate 32 0
         \<and> bytes_at m' (Addr 0) = bytes_at [[1, 3, 5, 7], [105, 105]] (Addr 0))
   \<and> (\<exists>n m'. MerkleNode_newBranch UnsignedChar [[1, 3, 5, 7], [105, 105]] (Addr 1)
         = Inr (n, m')
         \<and> Keccak n = replicate 32 0
         \<and> bytes_at m' (Addr 1) = bytes_at [[1, 3, 5, 7], [105, 105]] (Addr 1))"
proof -
  have h1: "defined_call UnsignedChar [[1, 3, 5, 7], [105, 105]] (Addr 0) 4"
    by (simp add: defined_call_def copy_size_def to_size_t_def to_byte_def readable_def
        PTRDIFF_MAX_def)
  have h2: "readable [[1, 3, 5, 7], [105, 105]] (Addr 1) 2"
    by (simp add: readable_def)
  from h1 h2
    constructors_zero_Keccak_keep_input
      [of UnsignedChar "[[1, 3, 5, 7], [105, 105]]" "Addr 0" 4 "Addr 1"]
  show ?thesis
    by blast
qed

end
